theory Spec2Isabelle
  imports
    Complex_Main
    "HOL-Library.Multiset"
    "HOL-Library.Char_ord"
    "HOL-Library.List_Lexorder"
    "HOL-Library.Product_Lexorder"
begin

section \<open>The partitioned time-series loader (src/api/data\_loader.py)\<close>

subsection \<open>Strings and paths\<close>

text \<open>
  Python strings are \<open>string\<close> (character lists); \<open>a < b\<close> on two strings is
  Python's lexicographic comparison (the orders of \<open>Char_ord\<close> and
  \<open>List_Lexorder\<close>). An \<open>Optional[str]\<close> is a \<open>string option\<close>; the
  test \<open>if s:\<close> is false for \<open>None\<close> and for the empty string. The
  parameter \<open>symbol\<close> of the source is written \<open>symb\<close>, the column keeps the
  name.
\<close>

text \<open>\<open>s.startswith(p)\<close>.\<close>

fun startswith :: "string \<Rightarrow> string \<Rightarrow> bool" where
  "startswith s [] = True"
| "startswith [] (p # ps) = False"
| "startswith (c # cs) (p # ps) = (c = p \<and> startswith cs ps)"

text \<open>\<open>sub in s\<close> on strings: \<open>sub\<close> occurs in \<open>s\<close> as a contiguous substring.\<close>

fun contains :: "string \<Rightarrow> string \<Rightarrow> bool" where
  "contains [] sub = (sub = [])"
| "contains (c # cs) sub = (startswith (c # cs) sub \<or> contains cs sub)"

text \<open>\<open>s.split(sep)\<close> for a one-character separator.\<close>

fun split :: "char \<Rightarrow> string \<Rightarrow> string list" where
  "split sep [] = [[]]"
| "split sep (c # cs) =
     (if c = sep then [] # split sep cs
      else (case split sep cs of [] \<Rightarrow> [[c]] | w # ws \<Rightarrow> (c # w) # ws))"

text \<open>
  A \<open>Path\<close> is the list of its \<open>parts\<close>; \<open>str(path)\<close> joins them with
  slashes (the root part of an absolute path is the slash itself).
\<close>

fun join_parts :: "string list \<Rightarrow> string" where
  "join_parts [] = []"
| "join_parts [p] = p"
| "join_parts (p # q # ps) = p @ ''/'' @ join_parts (q # ps)"

definition path_str :: "string list \<Rightarrow> string" where
  "path_str ps =
     (case ps of
        [] \<Rightarrow> ''.''
      | p # rest \<Rightarrow> if p = ''/'' then ''/'' @ join_parts rest else join_parts (p # rest))"

subsection \<open>Rows, frames and files\<close>

text \<open>
  A row of a stored frame has a \<open>timestamp\<close> cell, a \<open>symbol\<close> and the other
  columns (\<open>payload\<close>: open, high, low, close and volume, or the volatility). A
  stored timestamp cell is one of three things to \<open>pd.to_datetime(..., utc=True)\<close>:
  a value it turns into an instant, a null (\<open>None\<close>, \<open>NaN\<close>, \<open>NaT\<close>) that it
  turns into \<open>NaT\<close>, or a value it cannot parse, on which it raises. After
  normalisation the cell is \<open>Some t\<close> for the instant \<open>t\<close> and \<open>None\<close> for
  \<open>NaT\<close>.
\<close>

datatype cell = Instant int | Null | Unparseable

record ('t, 'p) row =
  timestamp :: 't
  symbol :: string
  payload :: 'p

type_synonym 'p raw_row = "(cell, 'p) row"
type_synonym 'p utc_row = "(int option, 'p) row"

text \<open>What \<open>pd.read_parquet(file)\<close> does on a file: it raises, or returns a frame.\<close>

datatype 'p parquet = Unreadable | Frame "'p raw_row list"

record 'p parquet_file =
  parts :: "string list"
  content :: "'p parquet"

text \<open>
  The loader object holds its two directories. The model keeps, for each, what
  \<open>list(base_dir.glob("**/*.parquet"))\<close> finds there, in the order of the glob.
\<close>

record 'p DataLoader =
  ohlc_dir :: "'p parquet_file list"
  vol_dir :: "'p parquet_file list"

text \<open>The exceptions of the two programs, as values.\<close>

datatype error =
    ValueError
  | TypeError
  | KeyError string
  | JSONDecodeError
  | ZeroDivisionError
  | KafkaError
  | ValidationError

subsection \<open>\_find\_parquet\_files\<close>

definition find_parquet_files ::
  "'p DataLoader \<Rightarrow> string \<Rightarrow> string option \<Rightarrow> string option \<Rightarrow> 'p parquet_file list" where
  "find_parquet_files self data_type symb date_filter =
     (if data_type \<noteq> ''ohlc'' \<and> data_type \<noteq> ''volatility'' then []
      else
        let files = (if data_type = ''ohlc'' then ohlc_dir self else vol_dir self);
            files = (case symb of
                       None \<Rightarrow> files
                     | Some s \<Rightarrow>
                         if s = [] then files
                         else filter (\<lambda>f. contains (path_str (parts f)) (''symbol='' @ s)) files);
            files = (case date_filter of
                       None \<Rightarrow> files
                     | Some d \<Rightarrow>
                         if d = [] then files
                         else filter (\<lambda>f. contains (path_str (parts f)) (''date='' @ d)) files)
        in sort_key parts files)"

subsection \<open>The body shared by load\_ohlc and load\_volatility\<close>

text \<open>
  The date of a file: the text between the first and the second \<open>=\<close> of the first
  path part that starts with \<open>date=\<close>; \<open>None\<close> when no part does. (Such a part
  contains \<open>=\<close>, so the split has an element of index 1.)
\<close>

fun derive_date :: "string list \<Rightarrow> string option" where
  "derive_date [] = None"
| "derive_date (part # rest) =
     (if startswith part ''date=''
      then (case split CHR ''='' part of _ # d # _ \<Rightarrow> Some d | _ \<Rightarrow> None)
      else derive_date rest)"

text \<open>The two \<open>continue\<close> tests of the loop over the candidate files.\<close>

definition both_and :: "string option \<Rightarrow> string option \<Rightarrow> (string \<Rightarrow> string \<Rightarrow> bool) \<Rightarrow> bool" where
  "both_and bound file_date test =
     (case bound of
        None \<Rightarrow> False
      | Some b \<Rightarrow>
          b \<noteq> [] \<and> (case file_date of None \<Rightarrow> False | Some d \<Rightarrow> d \<noteq> [] \<and> test d b))"

definition date_skipped :: "string option \<Rightarrow> string option \<Rightarrow> string option \<Rightarrow> bool" where
  "date_skipped start_date end_date file_date =
     (both_and start_date file_date (\<lambda>d b. d < b) \<or>
      both_and end_date file_date (\<lambda>d b. d > b))"

text \<open>The loop: the frames \<open>dfs\<close> of the files that pass the date tests and load.\<close>

fun read_files ::
  "'p parquet_file list \<Rightarrow> string option \<Rightarrow> string option \<Rightarrow> 'p raw_row list list" where
  "read_files [] start_date end_date = []"
| "read_files (f # fs) start_date end_date =
     (if date_skipped start_date end_date (derive_date (parts f))
      then read_files fs start_date end_date
      else (case content f of
              Unreadable \<Rightarrow> read_files fs start_date end_date
            | Frame df \<Rightarrow> df # read_files fs start_date end_date))"

text \<open>
  \<open>pd.to_datetime\<close> over the timestamp column of the concatenated frame: it raises
  when a cell cannot be parsed, and a null cell becomes \<open>NaT\<close>.
\<close>

fun to_instant :: "cell \<Rightarrow> error + int option" where
  "to_instant (Instant t) = Inr (Some t)"
| "to_instant Null = Inr None"
| "to_instant Unparseable = Inl ValueError"

fun to_datetime :: "'p raw_row list \<Rightarrow> error + 'p utc_row list" where
  "to_datetime [] = Inr []"
| "to_datetime (r # rs) =
     (case to_instant (timestamp r) of
        Inl e \<Rightarrow> Inl e
      | Inr t \<Rightarrow>
          (case to_datetime rs of
             Inl e \<Rightarrow> Inl e
           | Inr out \<Rightarrow> Inr (\<lparr>timestamp = t, symbol = symbol r, payload = payload r\<rparr> # out)))"

text \<open>
  \<open>DataFrame.tail(n)\<close>: the last \<open>n\<close> rows; nothing for \<open>n = 0\<close>; all rows but
  the first \<open>|n|\<close> for a negative \<open>n\<close>.
\<close>

definition tail :: "int \<Rightarrow> 'a list \<Rightarrow> 'a list" where
  "tail n xs =
     (if n = 0 then []
      else if 0 < n then drop (length xs - nat n) xs
      else drop (nat (- n)) xs)"

text \<open>
  \<open>result.sort_values('timestamp')\<close> is the library's sort with its default
  algorithm (\<open>kind='quicksort'\<close>) and its default place for nulls
  (\<open>na_position='last'\<close>); it is the parameter \<open>sort_values\<close> of the loader.
  What the library promises of it is \<open>sorts_by_timestamp\<close>: the result has the
  rows of the input, in ascending order of timestamp with the \<open>NaT\<close> rows last.
  \<open>sort_position\<close> is the place of a row in that order.
\<close>

definition sort_position :: "'p utc_row \<Rightarrow> bool \<times> int" where
  "sort_position r = (case timestamp r of None \<Rightarrow> (True, 0) | Some t \<Rightarrow> (False, t))"

definition sorts_by_timestamp :: "('p utc_row list \<Rightarrow> 'p utc_row list) \<Rightarrow> bool" where
  "sorts_by_timestamp sort_values =
     (\<forall>xs. sorted (map sort_position (sort_values xs)) \<and> mset (sort_values xs) = mset xs)"

definition load_partitioned ::
  "('p utc_row list \<Rightarrow> 'p utc_row list) \<Rightarrow> 'p DataLoader \<Rightarrow> string \<Rightarrow>
   string option \<Rightarrow> string option \<Rightarrow> string option \<Rightarrow> int option \<Rightarrow>
   error + 'p utc_row list" where
  "load_partitioned sort_values self data_type symb start_date end_date limit =
     (let files = find_parquet_files self data_type symb None in
      if files = [] then Inr []
      else
        let dfs = read_files files start_date end_date in
        if dfs = [] then Inr []
        else
          (case to_datetime (concat dfs) of
             Inl e \<Rightarrow> Inl e
           | Inr result \<Rightarrow>
               let result = sort_values result;
                   result = (case symb of
                               None \<Rightarrow> result
                             | Some s \<Rightarrow>
                                 if s = [] then result
                                 else filter (\<lambda>r. symbol r = s) result);
                   result = (case limit of
                               None \<Rightarrow> result
                             | Some n \<Rightarrow> if n = 0 then result else tail n result)
               in Inr result))"

definition load_ohlc ::
  "('p utc_row list \<Rightarrow> 'p utc_row list) \<Rightarrow> 'p DataLoader \<Rightarrow>
   string option \<Rightarrow> string option \<Rightarrow> string option \<Rightarrow> int option \<Rightarrow>
   error + 'p utc_row list" where
  "load_ohlc sort_values self symb start_date end_date limit =
     load_partitioned sort_values self ''ohlc'' symb start_date end_date limit"

definition load_volatility ::
  "('p utc_row list \<Rightarrow> 'p utc_row list) \<Rightarrow> 'p DataLoader \<Rightarrow>
   string option \<Rightarrow> string option \<Rightarrow> string option \<Rightarrow> int option \<Rightarrow>
   error + 'p utc_row list" where
  "load_volatility sort_values self symb start_date end_date limit =
     load_partitioned sort_values self ''volatility'' symb start_date end_date limit"

section \<open>Python values\<close>

text \<open>
  The values both programs handle: what \<open>json.loads\<close> returns, and what the cell
  of a frame holds. A dictionary (a decoded object, a row of a frame) is the list of
  its items, looked up with \<open>map_of\<close>. \<open>'f\<close> is the type of Python's floats.
\<close>

datatype 'f json =
    JNull
  | JBool bool
  | JInt int
  | JFloat 'f
  | JString string
  | JArray "'f json list"
  | JObject "(string \<times> 'f json) list"

type_synonym 'f dict = "(string \<times> 'f json) list"

text \<open>\<open>data[k]\<close> on a dictionary.\<close>

definition getitem :: "'f dict \<Rightarrow> string \<Rightarrow> error + 'f json" where
  "getitem d k = (case map_of d k of None \<Rightarrow> Inl (KeyError k) | Some v \<Rightarrow> Inr v)"

section \<open>The endpoint get\_ohlc (src/api/routes/ohlc.py)\<close>

text \<open>
  The endpoint calls the loader and converts the rows inside one \<open>try\<close>; any
  exception becomes \<open>HTTPException(status_code=500, detail=str(e))\<close>. The other
  columns of a row are a dictionary from column name to cell. \<open>to_float\<close> is the
  builtin \<open>float\<close> on a cell, \<open>Inl\<close> when it raises; \<open>OHLCData\<close> is the
  constructor of the response model of that name, which validates its fields and is
  \<open>Inl\<close> when the validation raises. The fields of \<open>OHLCResponse\<close> are
  \<open>data\<close>, \<open>count\<close> and \<open>symbol\<close>.
\<close>

datatype http_exception = HTTPException nat error

record 'd OHLCResponse =
  resp_data :: "'d list"
  resp_count :: nat
  resp_symbol :: "string option"

text \<open>
  \<open>float(row[name])\<close>, and \<open>OHLCData(timestamp=row['timestamp'],
  open=float(row['open']), ...)\<close> on one row, the arguments evaluated in the order
  they are written.
\<close>

definition float_of_column ::
  "('f json \<Rightarrow> error + 'f) \<Rightarrow> 'f dict utc_row \<Rightarrow> string \<Rightarrow> error + 'f" where
  "float_of_column to_float row name =
     (case getitem (payload row) name of Inl e \<Rightarrow> Inl e | Inr c \<Rightarrow> to_float c)"

definition ohlc_data ::
  "('f json \<Rightarrow> error + 'f) \<Rightarrow>
   (int option \<Rightarrow> 'f \<Rightarrow> 'f \<Rightarrow> 'f \<Rightarrow> 'f \<Rightarrow> 'f \<Rightarrow> string \<Rightarrow> error + 'd) \<Rightarrow>
   'f dict utc_row \<Rightarrow> error + 'd" where
  "ohlc_data to_float OHLCData row =
     (case float_of_column to_float row ''open'' of Inl e \<Rightarrow> Inl e | Inr opening \<Rightarrow>
      case float_of_column to_float row ''high'' of Inl e \<Rightarrow> Inl e | Inr high \<Rightarrow>
      case float_of_column to_float row ''low'' of Inl e \<Rightarrow> Inl e | Inr low \<Rightarrow>
      case float_of_column to_float row ''close'' of Inl e \<Rightarrow> Inl e | Inr closing \<Rightarrow>
      case float_of_column to_float row ''volume'' of Inl e \<Rightarrow> Inl e | Inr volume \<Rightarrow>
        OHLCData (timestamp row) opening high low closing volume (symbol row))"

text \<open>The loop \<open>for _, row in df.iterrows(): data.append(OHLCData(...))\<close>.\<close>

fun convert_rows ::
  "('f json \<Rightarrow> error + 'f) \<Rightarrow>
   (int option \<Rightarrow> 'f \<Rightarrow> 'f \<Rightarrow> 'f \<Rightarrow> 'f \<Rightarrow> 'f \<Rightarrow> string \<Rightarrow> error + 'd) \<Rightarrow>
   'f dict utc_row list \<Rightarrow> error + 'd list" where
  "convert_rows to_float OHLCData [] = Inr []"
| "convert_rows to_float OHLCData (row # rows) =
     (case ohlc_data to_float OHLCData row of
        Inl e \<Rightarrow> Inl e
      | Inr d \<Rightarrow>
          (case convert_rows to_float OHLCData rows of
             Inl e \<Rightarrow> Inl e
           | Inr data \<Rightarrow> Inr (d # data)))"

definition get_ohlc ::
  "('f dict utc_row list \<Rightarrow> 'f dict utc_row list) \<Rightarrow>
   ('f json \<Rightarrow> error + 'f) \<Rightarrow>
   (int option \<Rightarrow> 'f \<Rightarrow> 'f \<Rightarrow> 'f \<Rightarrow> 'f \<Rightarrow> 'f \<Rightarrow> string \<Rightarrow> error + 'd) \<Rightarrow>
   'f dict DataLoader \<Rightarrow>
   string option \<Rightarrow> string option \<Rightarrow> string option \<Rightarrow> int option \<Rightarrow>
   http_exception + 'd OHLCResponse" where
  "get_ohlc sort_values to_float OHLCData loader symb start_date end_date limit =
     (case load_ohlc sort_values loader symb start_date end_date limit of
        Inl e \<Rightarrow> Inl (HTTPException 500 e)
      | Inr df \<Rightarrow>
          if df = [] then Inr \<lparr>resp_data = [], resp_count = 0, resp_symbol = symb\<rparr>
          else (case convert_rows to_float OHLCData df of
                  Inl e \<Rightarrow> Inl (HTTPException 500 e)
                | Inr data \<Rightarrow>
                    Inr \<lparr>resp_data = data, resp_count = length data, resp_symbol = symb\<rparr>))"

section \<open>The streaming producer (src/producer/binance\_producer.py)\<close>

subsection \<open>Decoded messages\<close>

text \<open>
  A raw message is kept as what \<open>json.loads\<close> makes of it: \<open>None\<close> when it
  raises, otherwise the decoded value.
\<close>

text \<open>What the producer does that can be observed, in order.\<close>

datatype 'f event =
    Connect nat
  | Send "'f dict"
  | Sleep real
  | LogError error
  | LogInfo

record 'f BinanceProducer =
  replay_speed :: real
  connected :: bool
  message_count :: nat
  events :: "'f event list"

definition emit :: "'f event \<Rightarrow> 'f BinanceProducer \<Rightarrow> 'f BinanceProducer" where
  "emit ev self = self\<lparr>events := events self @ [ev]\<rparr>"

subsection \<open>connect\_kafka\<close>

definition max_retries :: nat where
  "max_retries = 10"

definition retry_delay :: real where
  "retry_delay = 5"

text \<open>
  \<open>broker attempt\<close> is what constructing the \<open>KafkaProducer\<close> does at that
  attempt: \<open>None\<close> when it succeeds, \<open>Some e\<close> when it raises \<open>e\<close>. The list is
  the rest of \<open>range(max_retries)\<close>; the result is the returned value or the
  exception that leaves the function.
\<close>

fun connect_attempts ::
  "(nat \<Rightarrow> error option) \<Rightarrow> nat list \<Rightarrow> 'f BinanceProducer \<Rightarrow>
   (error + bool) \<times> 'f BinanceProducer" where
  "connect_attempts broker [] self = (Inr False, self)"
| "connect_attempts broker (attempt # rest) self =
     (case broker attempt of
        None \<Rightarrow> (Inr True, emit LogInfo ((emit (Connect attempt) self)\<lparr>connected := True\<rparr>))
      | Some e \<Rightarrow>
          if attempt < max_retries - 1
          then connect_attempts broker rest
                 (emit (Sleep retry_delay) (emit (LogError e) (emit (Connect attempt) self)))
          else (Inl e, emit (LogError e) (emit (Connect attempt) self)))"

definition connect_kafka ::
  "(nat \<Rightarrow> error option) \<Rightarrow> 'f BinanceProducer \<Rightarrow> (error + bool) \<times> 'f BinanceProducer" where
  "connect_kafka broker self = connect_attempts broker [0..<max_retries] self"

subsection \<open>send\_to\_kafka\<close>

text \<open>
  \<open>ack\<close> says whether the send of this message and the wait for its
  acknowledgement return; when they raise, the exception is logged.
\<close>

definition send_to_kafka :: "'f BinanceProducer \<Rightarrow> 'f dict \<Rightarrow> bool \<Rightarrow> 'f BinanceProducer" where
  "send_to_kafka self trade_data ack =
     (let self = emit (Send trade_data) self in
      if ack
      then
        let self = self\<lparr>message_count := message_count self + 1\<rparr> in
        if message_count self mod 100 = 0 then emit LogInfo self else self
      else emit (LogError KafkaError) self)"

subsection \<open>on\_message\<close>

text \<open>
  The dictionary display that builds \<open>trade_data\<close>, evaluated item by item.
  \<open>to_float\<close> is the builtin \<open>float\<close> on a decoded value, \<open>Inl\<close> when it raises.
\<close>

definition build_trade_data ::
  "('f json \<Rightarrow> error + 'f) \<Rightarrow> 'f dict \<Rightarrow> error + 'f dict" where
  "build_trade_data to_float d =
     (case getitem d ''s'' of Inl e \<Rightarrow> Inl e | Inr s \<Rightarrow>
      case getitem d ''p'' of Inl e \<Rightarrow> Inl e | Inr p \<Rightarrow>
      case to_float p of Inl e \<Rightarrow> Inl e | Inr price \<Rightarrow>
      case getitem d ''q'' of Inl e \<Rightarrow> Inl e | Inr q \<Rightarrow>
      case to_float q of Inl e \<Rightarrow> Inl e | Inr quantity \<Rightarrow>
      case getitem d ''T'' of Inl e \<Rightarrow> Inl e | Inr t \<Rightarrow>
      case getitem d ''m'' of Inl e \<Rightarrow> Inl e | Inr m \<Rightarrow>
      case getitem d ''a'' of Inl e \<Rightarrow> Inl e | Inr a \<Rightarrow>
        Inr [(''symbol'', s), (''price'', JFloat price), (''quantity'', JFloat quantity),
             (''timestamp'', t), (''is_buyer_maker'', m), (''trade_id'', a)])"

text \<open>
  The throttle after a send: \<open>time.sleep(1.0 / self.replay_speed)\<close> when the
  replay speed is below 1. The division raises for a speed of 0 and the sleep raises
  for a negative length; both are caught by the handler of \<open>on_message\<close>.
\<close>

definition throttle :: "'f BinanceProducer \<Rightarrow> 'f BinanceProducer" where
  "throttle self =
     (if replay_speed self < 1
      then (if replay_speed self = 0 then emit (LogError ZeroDivisionError) self
            else if 1 / replay_speed self < 0 then emit (LogError ValueError) self
            else emit (Sleep (1 / replay_speed self)) self)
      else self)"

definition on_message ::
  "('f json \<Rightarrow> error + 'f) \<Rightarrow> 'f BinanceProducer \<Rightarrow> 'f json option \<Rightarrow> bool \<Rightarrow>
   'f BinanceProducer" where
  "on_message to_float self message ack =
     (case message of
        None \<Rightarrow> emit (LogError JSONDecodeError) self
      | Some data \<Rightarrow>
          (case data of
             JObject d \<Rightarrow>
               (case map_of d ''e'' of
                  None \<Rightarrow> self
                | Some e \<Rightarrow>
                    if e = JString ''aggTrade''
                    then (case build_trade_data to_float d of
                            Inl err \<Rightarrow> emit (LogError err) self
                          | Inr trade_data \<Rightarrow> throttle (send_to_kafka self trade_data ack))
                    else self)
           | JArray xs \<Rightarrow>
               if JString ''e'' \<in> set xs then emit (LogError TypeError) self else self
           | JString s \<Rightarrow>
               if CHR ''e'' \<in> set s then emit (LogError TypeError) self else self
           | _ \<Rightarrow> emit (LogError TypeError) self))"

text \<open>
  A feed session: the messages of the connection reach \<open>on_message\<close> one at a
  time, each with the outcome of its send.
\<close>

fun feed ::
  "('f json \<Rightarrow> error + 'f) \<Rightarrow> 'f BinanceProducer \<Rightarrow> ('f json option \<times> bool) list \<Rightarrow>
   'f BinanceProducer" where
  "feed to_float self [] = self"
| "feed to_float self ((message, ack) # rest) =
     feed to_float (on_message to_float self message ack) rest"

text \<open>The publish attempts of a run: the dictionaries handed to the bus, in order.\<close>

fun sends :: "'f event list \<Rightarrow> 'f dict list" where
  "sends [] = []"
| "sends (Send t # evs) = t # sends evs"
| "sends (_ # evs) = sends evs"

section \<open>Notions used in the statements\<close>

text \<open>
  \<open>pd.concat(dfs)\<close>: the rows of the candidate files that pass the date tests and
  load, in the order of the sorted file list.
\<close>

definition loaded_rows ::
  "'p DataLoader \<Rightarrow> string \<Rightarrow> string option \<Rightarrow> string option \<Rightarrow> string option \<Rightarrow>
   'p raw_row list" where
  "loaded_rows self data_type symb start_date end_date =
     concat (read_files (find_parquet_files self data_type symb None) start_date end_date)"

text \<open>A row matches the query when no symbol is asked for or its symbol is the one asked for.\<close>

definition matches :: "string option \<Rightarrow> ('t, 'p) row \<Rightarrow> bool" where
  "matches symb r = (case symb of None \<Rightarrow> True | Some s \<Rightarrow> s = [] \<or> symbol r = s)"

text \<open>The last step of the loader: \<open>if limit: result = result.tail(limit)\<close>.\<close>

definition limit_rows :: "int option \<Rightarrow> 'a list \<Rightarrow> 'a list" where
  "limit_rows limit result =
     (case limit of None \<Rightarrow> result | Some n \<Rightarrow> if n = 0 then result else tail n result)"

section \<open>Example storage\<close>

text \<open>
  Two files of BTCUSD, of 2023-11-08 (rows at seconds 0 and 2) and 2023-11-09 (rows
  at seconds 1 and 3), and a file outside any \<open>date=\<close> directory. The payload of
  a row is a number that tells the rows apart.
\<close>

definition raw :: "int \<Rightarrow> string \<Rightarrow> nat \<Rightarrow> nat raw_row" where
  "raw t s n = \<lparr>timestamp = Instant t, symbol = s, payload = n\<rparr>"

definition utc :: "int \<Rightarrow> string \<Rightarrow> nat \<Rightarrow> nat utc_row" where
  "utc t s n = \<lparr>timestamp = Some t, symbol = s, payload = n\<rparr>"

definition file_1108 :: "nat parquet_file" where
  "file_1108 =
     \<lparr>parts = [''data'', ''outputs'', ''ohlc'', ''symbol=BTCUSD'', ''date=2023-11-08'', ''a.parquet''],
      content = Frame [raw 0 ''BTCUSD'' 0, raw 2 ''BTCUSD'' 2]\<rparr>"

definition file_1109 :: "nat parquet_file" where
  "file_1109 =
     \<lparr>parts = [''data'', ''outputs'', ''ohlc'', ''symbol=BTCUSD'', ''date=2023-11-09'', ''a.parquet''],
      content = Frame [raw 1 ''BTCUSD'' 1, raw 3 ''BTCUSD'' 3]\<rparr>"

definition file_undated :: "nat parquet_file" where
  "file_undated =
     \<lparr>parts = [''data'', ''outputs'', ''ohlc'', ''symbol=BTCUSD'', ''b.parquet''],
      content = Frame [raw 4 ''BTCUSD'' 4]\<rparr>"

definition example_loader :: "nat DataLoader" where
  "example_loader = \<lparr>ohlc_dir = [file_1109, file_1108], vol_dir = []\<rparr>"

text \<open>
  A sort keeps ties when rows of equal timestamp leave it in the order they came in.
\<close>

definition keeps_ties :: "('p utc_row list \<Rightarrow> 'p utc_row list) \<Rightarrow> bool" where
  "keeps_ties sort_values =
     (\<forall>xs t. filter (\<lambda>r. timestamp r = t) (sort_values xs) = filter (\<lambda>r. timestamp r = t) xs)"

text \<open>
  The sort by timestamp that keeps ties (what \<open>sort_values\<close> is with
  \<open>kind='stable'\<close>). The examples use it on rows of different timestamps, where
  every sort that meets the promise gives the same result, and on two rows of one
  timestamp.
\<close>

definition stable_sort :: "'p utc_row list \<Rightarrow> 'p utc_row list" where
  "stable_sort = sort_key sort_position"



text \<open>A file under the directory of ETHUSD that holds a row of BTCUSD.\<close>

definition file_mismatch :: "nat parquet_file" where
  "file_mismatch =
     \<lparr>parts = [''data'', ''outputs'', ''ohlc'', ''symbol=ETHUSD'', ''date=2023-11-08'', ''a.parquet''],
      content = Frame [raw 0 ''BTCUSD'' 0, raw 1 ''ETHUSD'' 1]\<rparr>"

definition mismatch_loader :: "nat DataLoader" where
  "mismatch_loader = \<lparr>ohlc_dir = [file_mismatch], vol_dir = []\<rparr>"

text \<open>The loader's view of the storage once the files that do not load are gone.\<close>

definition without_unreadable :: "'p DataLoader \<Rightarrow> 'p DataLoader" where
  "without_unreadable self =
     \<lparr>ohlc_dir = filter (\<lambda>f. content f \<noteq> Unreadable) (ohlc_dir self),
      vol_dir = filter (\<lambda>f. content f \<noteq> Unreadable) (vol_dir self)\<rparr>"

text \<open>A file that does not load, alone and beside the two files of the example.\<close>

definition file_broken :: "nat parquet_file" where
  "file_broken =
     \<lparr>parts = [''data'', ''outputs'', ''ohlc'', ''symbol=BTCUSD'', ''date=2023-11-10'', ''a.parquet''],
      content = Unreadable\<rparr>"

definition broken_loader :: "nat DataLoader" where
  "broken_loader = \<lparr>ohlc_dir = [file_broken], vol_dir = []\<rparr>"

definition partly_broken_loader :: "nat DataLoader" where
  "partly_broken_loader = \<lparr>ohlc_dir = [file_1109, file_broken, file_1108], vol_dir = []\<rparr>"

text \<open>
  A stored row converts when its timestamp cell parses and \<open>OHLCData\<close> accepts
  the row; a file can be served when all its rows convert, if it loads at all.
\<close>

definition row_converts ::
  "('f json \<Rightarrow> error + 'f) \<Rightarrow>
   (int option \<Rightarrow> 'f \<Rightarrow> 'f \<Rightarrow> 'f \<Rightarrow> 'f \<Rightarrow> 'f \<Rightarrow> string \<Rightarrow> error + 'd) \<Rightarrow>
   'f dict raw_row \<Rightarrow> bool" where
  "row_converts to_float OHLCData r =
     (case to_instant (timestamp r) of
        Inl _ \<Rightarrow> False
      | Inr t \<Rightarrow>
          (case ohlc_data to_float OHLCData
                  \<lparr>timestamp = t, symbol = symbol r, payload = payload r\<rparr> of
             Inl _ \<Rightarrow> False
           | Inr _ \<Rightarrow> True))"

definition servable ::
  "('f json \<Rightarrow> error + 'f) \<Rightarrow>
   (int option \<Rightarrow> 'f \<Rightarrow> 'f \<Rightarrow> 'f \<Rightarrow> 'f \<Rightarrow> 'f \<Rightarrow> string \<Rightarrow> error + 'd) \<Rightarrow>
   'f dict parquet_file \<Rightarrow> bool" where
  "servable to_float OHLCData f =
     (case content f of
        Unreadable \<Rightarrow> True
      | Frame df \<Rightarrow> list_all (row_converts to_float OHLCData) df)"

text \<open>What a failed connection attempt that is not the last leaves in the trace.\<close>

definition failed_attempt :: "(nat \<Rightarrow> error) \<Rightarrow> nat \<Rightarrow> 'f event list" where
  "failed_attempt err i = [Connect i, LogError (err i), Sleep 5]"

text \<open>A producer as \<open>__init__\<close> leaves it, with the default replay speed.\<close>

definition fresh_producer :: "rat BinanceProducer" where
  "fresh_producer = \<lparr>replay_speed = 1, connected = False, message_count = 0, events = []\<rparr>"

text \<open>
  A valid aggregate-trade message: it parses to an object whose kind \<open>e\<close> is
  \<open>aggTrade\<close>, it has the fields \<open>s\<close>, \<open>p\<close>, \<open>q\<close>, \<open>T\<close>, \<open>m\<close> and
  \<open>a\<close>, and its price and quantity convert to floats. Every other message is
  malformed: one that does not parse, one of another kind, one with a field missing.
\<close>

definition converts :: "('f json \<Rightarrow> error + 'f) \<Rightarrow> 'f json option \<Rightarrow> bool" where
  "converts to_float v =
     (case v of None \<Rightarrow> False | Some j \<Rightarrow> (case to_float j of Inl _ \<Rightarrow> False | Inr _ \<Rightarrow> True))"

definition valid_agg_trade :: "('f json \<Rightarrow> error + 'f) \<Rightarrow> 'f json option \<Rightarrow> bool" where
  "valid_agg_trade to_float message =
     (case message of
        Some (JObject d) \<Rightarrow>
          map_of d ''e'' = Some (JString ''aggTrade'') \<and>
          list_all (\<lambda>k. map_of d k \<noteq> None) [''s'', ''p'', ''q'', ''T'', ''m'', ''a''] \<and>
          converts to_float (map_of d ''p'') \<and> converts to_float (map_of d ''q'')
      | _ \<Rightarrow> False)"

text \<open>
  The normalized trade event of a message, field by field as the schema of the bus
  names them.
\<close>

definition field :: "'f json option \<Rightarrow> string \<Rightarrow> 'f json" where
  "field message k =
     (case message of
        Some (JObject d) \<Rightarrow> (case map_of d k of Some v \<Rightarrow> v | None \<Rightarrow> JNull)
      | _ \<Rightarrow> JNull)"

definition number :: "('f json \<Rightarrow> error + 'f) \<Rightarrow> 'f json \<Rightarrow> 'f json" where
  "number to_float v = (case to_float v of Inr x \<Rightarrow> JFloat x | Inl _ \<Rightarrow> JNull)"

definition normalized :: "('f json \<Rightarrow> error + 'f) \<Rightarrow> 'f json option \<Rightarrow> 'f dict" where
  "normalized to_float message =
     [(''symbol'', field message ''s''),
      (''price'', number to_float (field message ''p'')),
      (''quantity'', number to_float (field message ''q'')),
      (''timestamp'', field message ''T''),
      (''is_buyer_maker'', field message ''m''),
      (''trade_id'', field message ''a'')]"

text \<open>
  A conversion to floats for the examples: it reads plain decimals (digits, with at
  most one point) exactly, as rationals.
\<close>

definition digit :: "char \<Rightarrow> nat option" where
  "digit c =
     (let code = (of_char c :: nat) in
      if 48 \<le> code \<and> code \<le> 57 then Some (code - 48) else None)"

fun digits :: "string \<Rightarrow> nat \<Rightarrow> nat option" where
  "digits [] acc = Some acc"
| "digits (c # cs) acc = (case digit c of None \<Rightarrow> None | Some d \<Rightarrow> digits cs (10 * acc + d))"

definition decimal :: "string \<Rightarrow> rat option" where
  "decimal s =
     (case split CHR ''.'' s of
        [ip] \<Rightarrow> (if ip = [] then None else map_option of_nat (digits ip 0))
      | [ip, fp] \<Rightarrow>
          (if ip = [] \<and> fp = [] then None
           else (case digits ip 0 of
                   None \<Rightarrow> None
                 | Some i \<Rightarrow>
                     (case digits fp 0 of
                        None \<Rightarrow> None
                      | Some f \<Rightarrow> Some (of_nat i + of_nat f / 10 ^ length fp))))
      | _ \<Rightarrow> None)"

definition plain_float :: "rat json \<Rightarrow> error + rat" where
  "plain_float v =
     (case v of
        JString s \<Rightarrow> (case decimal s of None \<Rightarrow> Inl ValueError | Some x \<Rightarrow> Inr x)
      | JInt n \<Rightarrow> Inr (of_int n)
      | JFloat x \<Rightarrow> Inr x
      | JBool b \<Rightarrow> Inr (if b then 1 else 0)
      | _ \<Rightarrow> Inl TypeError)"

text \<open>
  Storage for the endpoint: the two files of the example with their five price
  columns, and a response model that accepts every row with an instant.
\<close>

definition bar :: "int \<Rightarrow> string \<Rightarrow> rat \<Rightarrow> rat dict raw_row" where
  "bar t s x =
     \<lparr>timestamp = Instant t, symbol = s,
      payload = [(''open'', JFloat x), (''high'', JFloat x), (''low'', JFloat x),
                 (''close'', JFloat x), (''volume'', JFloat x)]\<rparr>"

definition bars_1108 :: "rat dict parquet_file" where
  "bars_1108 =
     \<lparr>parts = [''data'', ''outputs'', ''ohlc'', ''symbol=BTCUSD'', ''date=2023-11-08'', ''a.parquet''],
      content = Frame [bar 0 ''BTCUSD'' 10, bar 2 ''BTCUSD'' 12]\<rparr>"

definition bars_1109 :: "rat dict parquet_file" where
  "bars_1109 =
     \<lparr>parts = [''data'', ''outputs'', ''ohlc'', ''symbol=BTCUSD'', ''date=2023-11-09'', ''a.parquet''],
      content = Frame [bar 1 ''BTCUSD'' 11, bar 3 ''BTCUSD'' 13]\<rparr>"

definition bars_loader :: "rat dict DataLoader" where
  "bars_loader = \<lparr>ohlc_dir = [bars_1109, bars_1108], vol_dir = []\<rparr>"

definition accept_instant ::
  "int option \<Rightarrow> rat \<Rightarrow> rat \<Rightarrow> rat \<Rightarrow> rat \<Rightarrow> rat \<Rightarrow> string \<Rightarrow>
   error + int \<times> rat \<times> rat \<times> rat \<times> rat \<times> rat \<times> string" where
  "accept_instant t opening high low closing volume s =
     (case t of
        None \<Rightarrow> Inl ValidationError
      | Some i \<Rightarrow> Inr (i, opening, high, low, closing, volume, s))"

text \<open>The trade message of the scenario, and two malformed ones.\<close>

definition scenario_message :: "'f json" where
  "scenario_message =
     JObject [(''e'', JString ''aggTrade''), (''s'', JString ''BTCUSDT''),
              (''p'', JString ''50000.5''), (''q'', JString ''0.01''),
              (''T'', JInt 1699564800000), (''m'', JBool True), (''a'', JInt 123)]"

definition other_kind_message :: "'f json" where
  "other_kind_message =
     JObject [(''e'', JString ''kline''), (''s'', JString ''BTCUSDT'')]"

definition missing_field_message :: "'f json" where
  "missing_field_message =
     JObject [(''e'', JString ''aggTrade''), (''s'', JString ''BTCUSDT''),
              (''p'', JString ''50000.5''), (''T'', JInt 1699564800000),
              (''m'', JBool True), (''a'', JInt 123)]"





section \<open>Properties of the loader\<close>

subsection \<open>Strings and dates\<close>






lemma date_skipped_Some:
  "date_skipped sd ed (Some d) \<longleftrightarrow>
     d \<noteq> [] \<and> ((\<exists>s. sd = Some s \<and> s \<noteq> [] \<and> d < s) \<or> (\<exists>e. ed = Some e \<and> e \<noteq> [] \<and> e < d))"
  by (auto simp: date_skipped_def both_and_def split: option.splits)


subsection \<open>The loader in closed form\<close>

lemma sorts_Nil: "sorts_by_timestamp srt \<Longrightarrow> srt [] = []"
  unfolding sorts_by_timestamp_def by (metis mset_zero_iff)

lemma sorted_contract: "sorts_by_timestamp srt \<Longrightarrow> sorted (map sort_position (srt xs))"
  by (simp add: sorts_by_timestamp_def)

lemma mset_contract: "sorts_by_timestamp srt \<Longrightarrow> mset (srt xs) = mset xs"
  by (simp add: sorts_by_timestamp_def)

lemma stable_sort_contract: "sorts_by_timestamp stable_sort"
  by (simp add: sorts_by_timestamp_def stable_sort_def)

lemma tail_Nil: "tail n [] = []"
  by (simp add: tail_def)

lemma tail_pos: "0 < k \<Longrightarrow> tail k ys = drop (length ys - nat k) ys"
  by (simp add: tail_def)

lemma loaders_eq:
  "(load, dt) \<in> {(load_ohlc, ''ohlc''), (load_volatility, ''volatility'')} \<Longrightarrow>
   load srt self symb sd ed limit = load_partitioned srt self dt symb sd ed limit"
  by (auto simp: load_ohlc_def load_volatility_def)

lemma load_partitioned_eq:
  assumes "sorts_by_timestamp srt"
  shows "load_partitioned srt self dt symb sd ed limit =
     (case to_datetime (loaded_rows self dt symb sd ed) of
        Inl e \<Rightarrow> Inl e
      | Inr rows \<Rightarrow> Inr (limit_rows limit (filter (matches symb) (srt rows))))"
proof -
  have m: "(case symb of None \<Rightarrow> ys | Some s \<Rightarrow> if s = [] then ys else filter (\<lambda>r. symbol r = s) ys)
      = filter (matches symb) ys" for ys :: "'a utc_row list"
    by (cases symb) (auto simp: matches_def intro!: filter_cong)
  show ?thesis
    unfolding load_partitioned_def loaded_rows_def Let_def m
    using sorts_Nil [OF assms]
    by (auto simp: limit_rows_def tail_Nil split: sum.splits option.splits)
qed

lemma matched_sorted:
  assumes "sorts_by_timestamp srt"
  shows "sorted (map sort_position (filter P (srt xs)))"
  using sorted_contract [OF assms, of xs] by (rule sorted_filter)

lemma matched_mset:
  assumes "sorts_by_timestamp srt"
  shows "mset (filter P (srt xs)) = mset (filter P xs)"
  using mset_contract [OF assms, of xs] by (metis mset_filter)

lemma tail_sorted_latest:
  assumes "sorted (map f ys)"
  shows "sorted (map f (drop n ys)) \<and> mset (drop n ys) \<subseteq># mset ys \<and>
         (\<forall>r \<in># mset ys - mset (drop n ys). \<forall>r' \<in> set (drop n ys). f r \<le> f r')"
proof -
  have split: "ys = take n ys @ drop n ys" by simp
  have a: "sorted (map f (drop n ys))"
    using assms by (simp add: sorted_wrt_drop flip: drop_map)
  have b: "mset ys = mset (take n ys) + mset (drop n ys)"
    by (metis split mset_append)
  have c: "\<forall>r \<in> set (take n ys). \<forall>r' \<in> set (drop n ys). f r \<le> f r'"
  proof -
    have "sorted (map f (take n ys) @ map f (drop n ys))"
      using assms by (metis split map_append)
    then show ?thesis by (auto simp: sorted_append)
  qed
  from b have d: "mset ys - mset (drop n ys) = mset (take n ys)" by simp
  show ?thesis using a b c d by simp
qed

text \<open>The rows the example loader concatenates for BTCUSD, and their evaluation.\<close>

lemmas example_defs =
  example_loader_def file_1108_def file_1109_def file_undated_def raw_def utc_def
  loaded_rows_def find_parquet_files_def path_str_def date_skipped_def both_and_def
  stable_sort_def sort_position_def

lemma example_rows:
  "to_datetime (loaded_rows example_loader ''ohlc'' (Some ''BTCUSD'') None None) =
     Inr [utc 0 ''BTCUSD'' 0, utc 2 ''BTCUSD'' 2, utc 1 ''BTCUSD'' 1, utc 3 ''BTCUSD'' 3]"
  by (simp add: example_defs)

subsection \<open>The row limit\<close>

text \<open>
  For a row limit \<open>k\<close> of at least 1, \<open>load_ohlc\<close> and \<open>load_volatility\<close>
  return exactly \<open>min k total\<close> rows of the matched rows (the loaded rows whose
  symbol is the one asked for), in ascending order of timestamp with the \<open>NaT\<close>
  rows last, and no matched row left out comes later in that order than a returned
  one.
\<close>

theorem tail_limit_law:
  assumes which: "(load, dt) \<in> {(load_ohlc, ''ohlc''), (load_volatility, ''volatility'')}"
    and srt: "sorts_by_timestamp sort_values"
    and rows: "to_datetime (loaded_rows self dt symb start_date end_date) = Inr rows"
    and k: "0 < k"
  shows "\<exists>rs. load sort_values self symb start_date end_date (Some k) = Inr rs \<and>
           length rs = min (nat k) (length (filter (matches symb) rows)) \<and>
           sorted (map sort_position rs) \<and>
           mset rs \<subseteq># mset (filter (matches symb) rows) \<and>
           (\<forall>r \<in># mset (filter (matches symb) rows) - mset rs.
              \<forall>r' \<in> set rs. sort_position r \<le> sort_position r')"
proof -
  define ys where "ys = filter (matches symb) (sort_values rows)"
  define rs where "rs = drop (length ys - nat k) ys"
  have ret: "load sort_values self symb start_date end_date (Some k) = Inr rs"
    using k rows
    by (simp add: loaders_eq [OF which] load_partitioned_eq [OF srt]
        limit_rows_def tail_pos rs_def ys_def)
  have ms: "mset ys = mset (filter (matches symb) rows)"
    unfolding ys_def by (rule matched_mset [OF srt])
  then have len: "length ys = length (filter (matches symb) rows)"
    by (metis size_mset)
  have so: "sorted (map sort_position ys)"
    unfolding ys_def by (rule matched_sorted [OF srt])
  have "length rs = min (nat k) (length ys)"
    by (simp add: rs_def)
  moreover note tail_sorted_latest [OF so, of "length ys - nat k"]
  ultimately show ?thesis
    using ret ms len unfolding rs_def by auto
qed

theorem tail_limit_law_witness:
  "\<exists>rs. load_ohlc stable_sort example_loader (Some ''BTCUSD'') None None (Some 3) = Inr rs \<and>
     length rs =
       min (nat 3)
         (length (filter (matches (Some ''BTCUSD''))
            [utc 0 ''BTCUSD'' 0, utc 2 ''BTCUSD'' 2, utc 1 ''BTCUSD'' 1, utc 3 ''BTCUSD'' 3])) \<and>
     sorted (map sort_position rs) \<and>
     mset rs \<subseteq># mset (filter (matches (Some ''BTCUSD''))
            [utc 0 ''BTCUSD'' 0, utc 2 ''BTCUSD'' 2, utc 1 ''BTCUSD'' 1, utc 3 ''BTCUSD'' 3]) \<and>
     (\<forall>r \<in># mset (filter (matches (Some ''BTCUSD''))
            [utc 0 ''BTCUSD'' 0, utc 2 ''BTCUSD'' 2, utc 1 ''BTCUSD'' 1, utc 3 ''BTCUSD'' 3]) - mset rs.
        \<forall>r' \<in> set rs. sort_position r \<le> sort_position r')"
  by (rule tail_limit_law [where load = load_ohlc and dt = "''ohlc''"])
     (simp_all add: stable_sort_contract example_rows)

text \<open>
  C1 at a supplied limit of 0: the query of the example returns its four matched
  rows, where the claim asks for \<open>min 0 4 = 0\<close> rows. (The timestamps differ, so
  every sort that meets the promise gives this order.)
\<close>

theorem limit_zero_run:
  "load_ohlc stable_sort example_loader (Some ''BTCUSD'') None None (Some 0) =
     Inr [utc 0 ''BTCUSD'' 0, utc 1 ''BTCUSD'' 1, utc 2 ''BTCUSD'' 2, utc 3 ''BTCUSD'' 3]"
  by (simp add: load_ohlc_def load_partitioned_eq [OF stable_sort_contract] example_rows
      limit_rows_def)
     (simp add: matches_def utc_def stable_sort_def sort_position_def)

text \<open>
  C10: a limit of 0 is the same query as no limit at all, for \<open>load_ohlc\<close> and for
  \<open>load_volatility\<close>; and when the timestamps of the loaded rows parse, that query
  returns every matched row, in ascending order of timestamp with the \<open>NaT\<close> rows
  last.
\<close>

theorem limit_zero_returns_all_rows:
  "(load_ohlc sort_values self symb start_date end_date (Some 0) =
      load_ohlc sort_values self symb start_date end_date None \<and>
    load_volatility sort_values self symb start_date end_date (Some 0) =
      load_volatility sort_values self symb start_date end_date None) \<and>
   ((load, dt) \<in> {(load_ohlc, ''ohlc''), (load_volatility, ''volatility'')} \<and>
    sorts_by_timestamp sort_values \<and>
    to_datetime (loaded_rows self dt symb start_date end_date) = Inr rows \<longrightarrow>
      (\<exists>rs. load sort_values self symb start_date end_date (Some 0) = Inr rs \<and>
            mset rs = mset (filter (matches symb) rows) \<and>
            length rs = length (filter (matches symb) rows) \<and>
            sorted (map sort_position rs)))"
proof (intro conjI impI)
  show "load_ohlc sort_values self symb start_date end_date (Some 0) =
      load_ohlc sort_values self symb start_date end_date None"
    by (simp add: load_ohlc_def load_partitioned_def Let_def split: sum.splits)
  show "load_volatility sort_values self symb start_date end_date (Some 0) =
      load_volatility sort_values self symb start_date end_date None"
    by (simp add: load_volatility_def load_partitioned_def Let_def split: sum.splits)
next
  assume a: "(load, dt) \<in> {(load_ohlc, ''ohlc''), (load_volatility, ''volatility'')} \<and>
    sorts_by_timestamp sort_values \<and>
    to_datetime (loaded_rows self dt symb start_date end_date) = Inr rows"
  then have which: "(load, dt) \<in> {(load_ohlc, ''ohlc''), (load_volatility, ''volatility'')}"
    and srt: "sorts_by_timestamp sort_values"
    and rows: "to_datetime (loaded_rows self dt symb start_date end_date) = Inr rows"
    by simp_all
  define rs where "rs = filter (matches symb) (sort_values rows)"
  have ret: "load sort_values self symb start_date end_date (Some 0) = Inr rs"
    using rows
    by (simp add: loaders_eq [OF which] load_partitioned_eq [OF srt] limit_rows_def rs_def)
  have ms: "mset rs = mset (filter (matches symb) rows)"
    unfolding rs_def by (rule matched_mset [OF srt])
  then have len: "length rs = length (filter (matches symb) rows)"
    by (metis size_mset)
  have so: "sorted (map sort_position rs)"
    unfolding rs_def by (rule matched_sorted [OF srt])
  from ret ms len so
  show "\<exists>rs. load sort_values self symb start_date end_date (Some 0) = Inr rs \<and>
            mset rs = mset (filter (matches symb) rows) \<and>
            length rs = length (filter (matches symb) rows) \<and>
            sorted (map sort_position rs)"
    by blast
qed

theorem limit_zero_returns_all_rows_witness:
  "load_ohlc stable_sort example_loader (Some ''BTCUSD'') None None (Some 0) =
     load_ohlc stable_sort example_loader (Some ''BTCUSD'') None None None \<and>
   (\<exists>rs. load_ohlc stable_sort example_loader (Some ''BTCUSD'') None None (Some 0) = Inr rs \<and>
      mset rs = mset (filter (matches (Some ''BTCUSD''))
         [utc 0 ''BTCUSD'' 0, utc 2 ''BTCUSD'' 2, utc 1 ''BTCUSD'' 1, utc 3 ''BTCUSD'' 3]) \<and>
      length rs = 4)"
proof -
  let ?rows = "[utc 0 ''BTCUSD'' 0, utc 2 ''BTCUSD'' 2, utc 1 ''BTCUSD'' 1, utc 3 ''BTCUSD'' 3]"
  note law = limit_zero_returns_all_rows [where load = load_ohlc and dt = "''ohlc''"
      and sort_values = stable_sort and self = example_loader and symb = "Some ''BTCUSD''"
      and start_date = None and end_date = None and rows = ?rows]
  have hyp: "(load_ohlc, ''ohlc'') \<in> {(load_ohlc, ''ohlc''), (load_volatility, ''volatility'')} \<and>
      sorts_by_timestamp (stable_sort :: nat utc_row list \<Rightarrow> nat utc_row list) \<and>
      to_datetime (loaded_rows example_loader ''ohlc'' (Some ''BTCUSD'') None None) = Inr ?rows"
    by (simp add: stable_sort_contract example_rows)
  from law have same: "load_ohlc stable_sort example_loader (Some ''BTCUSD'') None None (Some 0) =
      load_ohlc stable_sort example_loader (Some ''BTCUSD'') None None None"
    by blast
  from law hyp obtain rs where
    rs: "load_ohlc stable_sort example_loader (Some ''BTCUSD'') None None (Some 0) = Inr rs"
      "mset rs = mset (filter (matches (Some ''BTCUSD'')) ?rows)"
      "length rs = length (filter (matches (Some ''BTCUSD'')) ?rows)"
    by blast
  have "length (filter (matches (Some ''BTCUSD'')) ?rows) = 4"
    by (simp add: matches_def utc_def)
  with rs same show ?thesis by auto
qed

subsection \<open>The date step\<close>



lemma sort_position_eq_iff: "sort_position r = sort_position r' \<longleftrightarrow> timestamp r = timestamp r'"
  by (auto simp: sort_position_def split: option.splits)

lemma stable_sort_keeps_ties: "keeps_ties stable_sort"
proof -
  have "filter (\<lambda>r. timestamp r = t) (stable_sort xs) = filter (\<lambda>r. timestamp r = t) xs"
    for t and xs :: "'a utc_row list"
  proof -
    define k where "k = sort_position \<lparr>timestamp = t, symbol = [], payload = undefined :: 'a\<rparr>"
    have eq: "(timestamp r = t) = (sort_position r = k)" for r :: "'a utc_row"
      unfolding k_def by (simp add: sort_position_eq_iff)
    show ?thesis
      unfolding eq stable_sort_def by (rule sort_key_stable)
  qed
  then show ?thesis by (simp add: keeps_ties_def)
qed

subsection \<open>Ordering of the result\<close>










subsection \<open>The symbol filter\<close>

lemma find_parquet_files_symbol:
  assumes "(load, dt, dir) \<in> {(load_ohlc, ''ohlc'', ohlc_dir), (load_volatility, ''volatility'', vol_dir)}"
    and "s \<noteq> []"
  shows "find_parquet_files self dt (Some s) None =
     sort_key parts (filter (\<lambda>f. contains (path_str (parts f)) (''symbol='' @ s)) (dir self))"
  using assms by (auto simp: find_parquet_files_def)

lemma limit_rows_subset: "set (limit_rows limit xs) \<subseteq> set xs"
  by (auto simp: limit_rows_def tail_def split: option.splits dest: in_set_dropD)

text \<open>
  C3, as the code has it: for a query with symbol \<open>s\<close>, the candidate files
  are those whose path contains \<open>symbol=s\<close>. Of their rows (those of the files
  that pass the date tests and load), the query without a limit returns exactly the
  ones whose content symbol is \<open>s\<close>; with any limit, every returned row has the
  content symbol \<open>s\<close>. Rows of files whose path does not contain \<open>symbol=s\<close>
  are not read at all.
\<close>

theorem symbol_filter:
  assumes which: "(load, dt, dir) \<in>
      {(load_ohlc, ''ohlc'', ohlc_dir), (load_volatility, ''volatility'', vol_dir)}"
    and srt: "sorts_by_timestamp sort_values"
    and s: "s \<noteq> []"
    and rows: "to_datetime (concat (read_files
        (sort_key parts (filter (\<lambda>f. contains (path_str (parts f)) (''symbol='' @ s)) (dir self)))
        start_date end_date)) = Inr rows"
  shows "(\<exists>rs. load sort_values self (Some s) start_date end_date None = Inr rs \<and>
            mset rs = mset (filter (\<lambda>r. symbol r = s) rows)) \<and>
         (\<exists>rs. load sort_values self (Some s) start_date end_date limit = Inr rs \<and>
            (\<forall>r \<in> set rs. symbol r = s))"
proof -
  have which': "(load, dt) \<in> {(load_ohlc, ''ohlc''), (load_volatility, ''volatility'')}"
    using which by auto
  have rows': "to_datetime (loaded_rows self dt (Some s) start_date end_date) = Inr rows"
    using rows by (simp add: loaded_rows_def find_parquet_files_symbol [OF which s])
  have m: "matches (Some s) = (\<lambda>r. symbol r = s)"
    using s by (auto simp: matches_def fun_eq_iff)
  have eq: "load sort_values self (Some s) start_date end_date l =
      Inr (limit_rows l (filter (\<lambda>r. symbol r = s) (sort_values rows)))" for l
    using rows'
    by (simp add: loaders_eq [OF which'] load_partitioned_eq [OF srt] m)
  have a: "mset (limit_rows None (filter (\<lambda>r. symbol r = s) (sort_values rows))) =
      mset (filter (\<lambda>r. symbol r = s) rows)"
    using matched_mset [OF srt, of "\<lambda>r. symbol r = s" rows] by (simp add: limit_rows_def)
  have b: "\<forall>r \<in> set (limit_rows limit (filter (\<lambda>r. symbol r = s) (sort_values rows))). symbol r = s"
    using limit_rows_subset [of limit "filter (\<lambda>r. symbol r = s) (sort_values rows)"] by auto
  have first: "\<exists>rs. load sort_values self (Some s) start_date end_date None = Inr rs \<and>
      mset rs = mset (filter (\<lambda>r. symbol r = s) rows)"
    using eq [of None] a by blast
  have second: "\<exists>rs. load sort_values self (Some s) start_date end_date limit = Inr rs \<and>
      (\<forall>r \<in> set rs. symbol r = s)"
    using eq [of limit] b by blast
  from first second show ?thesis ..
qed

theorem symbol_filter_witness:
  "(\<exists>rs. load_ohlc stable_sort mismatch_loader (Some ''ETHUSD'') None None None = Inr rs \<and>
      mset rs = mset (filter (\<lambda>r. symbol r = ''ETHUSD'') [utc 0 ''BTCUSD'' 0, utc 1 ''ETHUSD'' 1])) \<and>
   (\<exists>rs. load_ohlc stable_sort mismatch_loader (Some ''ETHUSD'') None None (Some 5) = Inr rs \<and>
      (\<forall>r \<in> set rs. symbol r = ''ETHUSD''))"
  by (rule symbol_filter [where load = load_ohlc and dt = "''ohlc''" and dir = ohlc_dir])
     (simp_all add: stable_sort_contract mismatch_loader_def file_mismatch_def raw_def utc_def
        path_str_def date_skipped_def both_and_def)

text \<open>
  C3 as stated fails where directory and content disagree: the row of BTCUSD stored
  under \<open>symbol=ETHUSD\<close> is not returned to a query for BTCUSD.
\<close>

theorem symbol_mismatch_counterexample:
  "ohlc_dir mismatch_loader = [file_mismatch] \<and>
   content file_mismatch = Frame [raw 0 ''BTCUSD'' 0, raw 1 ''ETHUSD'' 1] \<and>
   symbol (raw 0 ''BTCUSD'' 0) = ''BTCUSD'' \<and>
   load_ohlc stable_sort mismatch_loader (Some ''BTCUSD'') None None None = Inr []"
  by (simp add: mismatch_loader_def file_mismatch_def raw_def load_ohlc_def load_partitioned_def
      find_parquet_files_def path_str_def)

subsection \<open>No files, and files that do not load\<close>

lemma read_files_all_unreadable:
  "\<forall>f \<in> set files. content f = Unreadable \<Longrightarrow> read_files files sd ed = []"
  by (induction files) auto

lemma read_files_without_unreadable:
  "read_files (filter (\<lambda>f. content f \<noteq> Unreadable) files) sd ed = read_files files sd ed"
  by (induction files) (auto split: parquet.splits)

lemma find_without_unreadable:
  "find_parquet_files (without_unreadable self) dt symb df =
     filter (\<lambda>f. content f \<noteq> Unreadable) (find_parquet_files self dt symb df)"
  by (auto simp: find_parquet_files_def without_unreadable_def Let_def filter_sort conj_commute
      split: option.splits intro!: arg_cong [where f = "sort_key parts"] filter_cong)

lemma load_partitioned_dfs:
  "load_partitioned srt self dt symb sd ed limit =
     (let dfs = read_files (find_parquet_files self dt symb None) sd ed in
      if dfs = [] then Inr []
      else (case to_datetime (concat dfs) of
              Inl e \<Rightarrow> Inl e
            | Inr result \<Rightarrow>
                Inr (limit_rows limit
                  (case symb of None \<Rightarrow> srt result
                   | Some s \<Rightarrow> if s = [] then srt result
                               else filter (\<lambda>r. symbol r = s) (srt result)))))"
  by (auto simp: load_partitioned_def Let_def limit_rows_def split: sum.splits option.splits)

text \<open>
  C9: when no candidate file exists, or every candidate file fails to load,
  \<open>load_ohlc\<close> and \<open>load_volatility\<close> return the empty sequence and no
  error; and a query gives what it gives on the storage without the files that fail
  to load, so that a failing file aborts nothing and the other files contribute
  their rows.
\<close>

theorem empty_input_law:
  assumes which: "(load, dt) \<in> {(load_ohlc, ''ohlc''), (load_volatility, ''volatility'')}"
  shows "(find_parquet_files self dt symb None = [] \<longrightarrow>
            load sort_values self symb start_date end_date limit = Inr []) \<and>
         ((\<forall>f \<in> set (find_parquet_files self dt symb None). content f = Unreadable) \<longrightarrow>
            load sort_values self symb start_date end_date limit = Inr []) \<and>
         load sort_values self symb start_date end_date limit =
           load sort_values (without_unreadable self) symb start_date end_date limit"
proof -
  have a: "load sort_values self symb start_date end_date limit = Inr []"
    if "\<forall>f \<in> set (find_parquet_files self dt symb None). content f = Unreadable"
    using read_files_all_unreadable [OF that, of start_date end_date]
    by (simp add: loaders_eq [OF which] load_partitioned_dfs)
  have b: "load sort_values self symb start_date end_date limit = Inr []"
    if "find_parquet_files self dt symb None = []"
    using that by (simp add: loaders_eq [OF which] load_partitioned_dfs)
  have c: "load sort_values self symb start_date end_date limit =
      load sort_values (without_unreadable self) symb start_date end_date limit"
    by (simp only: loaders_eq [OF which] load_partitioned_dfs find_without_unreadable
        read_files_without_unreadable)
  from a b c show ?thesis by blast
qed


lemma broken_candidates:
  "find_parquet_files broken_loader ''ohlc'' (Some ''BTCUSD'') None = [file_broken]"
  by (simp add: find_parquet_files_def broken_loader_def file_broken_def path_str_def)

lemma mismatch_candidates:
  "find_parquet_files mismatch_loader ''ohlc'' (Some ''BTCUSD'') None = []"
  by (simp add: find_parquet_files_def mismatch_loader_def file_mismatch_def path_str_def)

lemma partly_broken_rows:
  "load_ohlc stable_sort partly_broken_loader (Some ''BTCUSD'') None None (Some 10) =
     Inr [utc 0 ''BTCUSD'' 0, utc 1 ''BTCUSD'' 1, utc 2 ''BTCUSD'' 2, utc 3 ''BTCUSD'' 3]"
  by (simp add: load_ohlc_def load_partitioned_def find_parquet_files_def partly_broken_loader_def
     file_broken_def file_1108_def file_1109_def path_str_def date_skipped_def both_and_def tail_def raw_def utc_def
     stable_sort_def sort_position_def)

theorem empty_input_law_witness:
  "load_ohlc stable_sort mismatch_loader (Some ''BTCUSD'') None None (Some 10) = Inr [] \<and>
   load_ohlc stable_sort broken_loader (Some ''BTCUSD'') None None (Some 10) = Inr [] \<and>
   load_ohlc stable_sort (without_unreadable partly_broken_loader)
       (Some ''BTCUSD'') None None (Some 10) =
     Inr [utc 0 ''BTCUSD'' 0, utc 1 ''BTCUSD'' 1, utc 2 ''BTCUSD'' 2, utc 3 ''BTCUSD'' 3]"
  using
    empty_input_law [of load_ohlc "''ohlc''" mismatch_loader "Some ''BTCUSD''"
      stable_sort None None "Some 10"]
    empty_input_law [of load_ohlc "''ohlc''" broken_loader "Some ''BTCUSD''"
      stable_sort None None "Some 10"]
    empty_input_law [of load_ohlc "''ohlc''" partly_broken_loader "Some ''BTCUSD''"
      stable_sort None None "Some 10"]
  by (simp add: broken_candidates mismatch_candidates file_broken_def partly_broken_rows)

subsection \<open>Date filters at the endpoint\<close>

lemma to_datetime_converts:
  "list_all (row_converts to_float OHLCData) rows \<Longrightarrow>
   \<exists>out. to_datetime rows = Inr out \<and>
         (\<forall>r \<in> set out. \<exists>d. ohlc_data to_float OHLCData r = Inr d)"
proof (induction rows)
  case Nil
  show ?case by simp
next
  case (Cons r rows)
  then obtain out where out: "to_datetime rows = Inr out"
      "\<forall>r \<in> set out. \<exists>d. ohlc_data to_float OHLCData r = Inr d"
    by auto
  from Cons.prems obtain t d where
    "to_instant (timestamp r) = Inr t"
    "ohlc_data to_float OHLCData \<lparr>timestamp = t, symbol = symbol r, payload = payload r\<rparr> = Inr d"
    by (auto simp: row_converts_def split: sum.splits)
  with out show ?case by simp
qed

lemma read_files_servable:
  "\<forall>f \<in> set files. servable to_float OHLCData f \<Longrightarrow>
   list_all (row_converts to_float OHLCData) (concat (read_files files sd ed))"
  by (induction files) (auto simp: servable_def split: parquet.splits)

lemma convert_rows_ok:
  "\<forall>r \<in> set rows. \<exists>d. ohlc_data to_float OHLCData r = Inr d \<Longrightarrow>
   \<exists>data. convert_rows to_float OHLCData rows = Inr data"
  by (induction rows) auto

lemma find_parquet_files_subset:
  "set (find_parquet_files self ''ohlc'' symb df) \<subseteq> set (ohlc_dir self)"
  by (auto simp: find_parquet_files_def Let_def split: option.splits)

lemma read_files_all_skipped:
  "\<forall>f \<in> set files. date_skipped sd ed (derive_date (parts f)) \<Longrightarrow> read_files files sd ed = []"
  by (induction files) auto

lemma get_ohlc_of_rows:
  assumes "load_ohlc sort_values loader symb start_date end_date limit = Inr df"
    and "convert_rows to_float OHLCData df = Inr data"
  shows "\<exists>resp. get_ohlc sort_values to_float OHLCData loader symb start_date end_date limit =
           Inr resp \<and>
         resp_count resp = length (resp_data resp) \<and> resp_symbol resp = symb"
  using assms by (simp add: get_ohlc_def)

text \<open>
  C5, as the code has it: \<open>get_ohlc\<close> and the loader never validate a date
  filter. Whatever strings \<open>start_date\<close> and \<open>end_date\<close> are, when every stored
  row converts (its timestamp parses, its five price cells convert to floats and
  \<open>OHLCData\<close> accepts it) the endpoint answers with a normal response whose count
  is the number of its rows; the strings are only compared with the dates of the
  paths, so a start date that is above every file date as a string is answered with
  the empty response, whatever the rows are.
\<close>

theorem date_filter_not_validated:
  "(sorts_by_timestamp sort_values \<and>
    (\<forall>f \<in> set (ohlc_dir loader). servable to_float OHLCData f) \<longrightarrow>
      (\<exists>resp. get_ohlc sort_values to_float OHLCData loader symb start_date end_date limit =
                 Inr resp \<and>
              resp_count resp = length (resp_data resp) \<and> resp_symbol resp = symb)) \<and>
   ((\<exists>s. start_date = Some s \<and> s \<noteq> [] \<and>
         (\<forall>f \<in> set (ohlc_dir loader).
            \<exists>d. derive_date (parts f) = Some d \<and> d \<noteq> [] \<and> d < s)) \<longrightarrow>
      get_ohlc sort_values to_float OHLCData loader symb start_date end_date limit =
        Inr \<lparr>resp_data = [], resp_count = 0, resp_symbol = symb\<rparr>)"
proof (intro conjI impI)
  define files where "files = find_parquet_files loader ''ohlc'' symb None"
  have sub: "set files \<subseteq> set (ohlc_dir loader)"
    unfolding files_def by (rule find_parquet_files_subset)
  {
    assume a: "sorts_by_timestamp sort_values \<and>
      (\<forall>f \<in> set (ohlc_dir loader). servable to_float OHLCData f)"
    then have srt: "sorts_by_timestamp sort_values" by simp
    from a sub have "\<forall>f \<in> set files. servable to_float OHLCData f" by blast
    then have "list_all (row_converts to_float OHLCData)
        (concat (read_files files start_date end_date))"
      by (rule read_files_servable)
    then obtain out where out:
      "to_datetime (loaded_rows loader ''ohlc'' symb start_date end_date) = Inr out"
      "\<forall>r \<in> set out. \<exists>d. ohlc_data to_float OHLCData r = Inr d"
      unfolding loaded_rows_def files_def [symmetric]
      using to_datetime_converts by blast
    define df where "df = limit_rows limit (filter (matches symb) (sort_values out))"
    have load: "load_ohlc sort_values loader symb start_date end_date limit = Inr df"
      using out(1) by (simp add: load_ohlc_def load_partitioned_eq [OF srt] df_def)
    have "set (sort_values out) = set out"
      using mset_contract [OF srt, of out] by (rule mset_eq_setD)
    then have "set df \<subseteq> set out"
      unfolding df_def using limit_rows_subset [of limit "filter (matches symb) (sort_values out)"]
      by auto
    with out(2) have "\<forall>r \<in> set df. \<exists>d. ohlc_data to_float OHLCData r = Inr d" by blast
    then obtain data where "convert_rows to_float OHLCData df = Inr data"
      using convert_rows_ok by blast
    with load
    show "\<exists>resp. get_ohlc sort_values to_float OHLCData loader symb start_date end_date limit =
           Inr resp \<and>
         resp_count resp = length (resp_data resp) \<and> resp_symbol resp = symb"
      by (rule get_ohlc_of_rows)
  }
  {
    assume "\<exists>s. start_date = Some s \<and> s \<noteq> [] \<and>
         (\<forall>f \<in> set (ohlc_dir loader).
            \<exists>d. derive_date (parts f) = Some d \<and> d \<noteq> [] \<and> d < s)"
    then obtain s where s: "start_date = Some s" "s \<noteq> []"
      and below: "\<forall>f \<in> set (ohlc_dir loader).
          \<exists>d. derive_date (parts f) = Some d \<and> d \<noteq> [] \<and> d < s"
      by blast
    have "\<forall>f \<in> set files. date_skipped start_date end_date (derive_date (parts f))"
    proof
      fix f
      assume "f \<in> set files"
      then obtain d where "derive_date (parts f) = Some d" "d \<noteq> []" "d < s"
        using sub below by blast
      then show "date_skipped start_date end_date (derive_date (parts f))"
        using s by (simp add: date_skipped_Some)
    qed
    then have "read_files files start_date end_date = []"
      by (rule read_files_all_skipped)
    then show "get_ohlc sort_values to_float OHLCData loader symb start_date end_date limit =
        Inr \<lparr>resp_data = [], resp_count = 0, resp_symbol = symb\<rparr>"
      by (simp add: get_ohlc_def load_ohlc_def load_partitioned_dfs files_def)
  }
qed

lemma bars_servable:
  "\<forall>f \<in> set (ohlc_dir bars_loader). servable plain_float accept_instant f"
  by (simp add: bars_loader_def bars_1108_def bars_1109_def bar_def servable_def
      row_converts_def ohlc_data_def float_of_column_def getitem_def plain_float_def
      accept_instant_def)

lemma bars_dates:
  "\<forall>f \<in> set (ohlc_dir bars_loader).
     \<exists>d. derive_date (parts f) = Some d \<and> d \<noteq> [] \<and> d < ''yesterday''"
  by (simp add: bars_loader_def bars_1108_def bars_1109_def)

theorem date_filter_not_validated_witness:
  "(\<exists>resp. get_ohlc stable_sort plain_float accept_instant bars_loader (Some ''BTCUSD'')
        (Some ''13/45/2023'') None (Some 1000) = Inr resp \<and>
      resp_count resp = length (resp_data resp) \<and> resp_symbol resp = Some ''BTCUSD'') \<and>
   get_ohlc stable_sort plain_float accept_instant bars_loader (Some ''BTCUSD'')
        (Some ''yesterday'') None (Some 1000) =
     Inr \<lparr>resp_data = [], resp_count = 0, resp_symbol = Some ''BTCUSD''\<rparr>"
  using
    date_filter_not_validated [where sort_values = stable_sort and to_float = plain_float
      and OHLCData = accept_instant and loader = bars_loader and symb = "Some ''BTCUSD''"
      and start_date = "Some ''13/45/2023''" and end_date = None and limit = "Some 1000"]
    date_filter_not_validated [where sort_values = stable_sort and to_float = plain_float
      and OHLCData = accept_instant and loader = bars_loader and symb = "Some ''BTCUSD''"
      and start_date = "Some ''yesterday''" and end_date = None and limit = "Some 1000"]
    bars_servable bars_dates stable_sort_contract [where 'a = "rat dict"]
  by blast

lemma bars_served:
  "get_ohlc stable_sort plain_float accept_instant bars_loader (Some ''BTCUSD'')
     None None (Some 1000) =
     Inr \<lparr>resp_data =
            [(0, 10, 10, 10, 10, 10, ''BTCUSD''), (1, 11, 11, 11, 11, 11, ''BTCUSD''),
             (2, 12, 12, 12, 12, 12, ''BTCUSD''), (3, 13, 13, 13, 13, 13, ''BTCUSD'')],
          resp_count = 4, resp_symbol = Some ''BTCUSD''\<rparr>"
  by (simp add: get_ohlc_def load_ohlc_def load_partitioned_def find_parquet_files_def
      bars_loader_def bars_1108_def bars_1109_def path_str_def date_skipped_def both_and_def
      bar_def stable_sort_def sort_position_def tail_def ohlc_data_def float_of_column_def
      getitem_def plain_float_def accept_instant_def)

text \<open>
  C5 as stated fails: on the storage whose four rows the endpoint serves when no
  filter is given, the filter \<open>not-a-date\<close> is answered with the empty result and
  not with an error.
\<close>

theorem malformed_date_counterexample:
  "get_ohlc stable_sort plain_float accept_instant bars_loader (Some ''BTCUSD'')
     None None (Some 1000) =
     Inr \<lparr>resp_data =
            [(0, 10, 10, 10, 10, 10, ''BTCUSD''), (1, 11, 11, 11, 11, 11, ''BTCUSD''),
             (2, 12, 12, 12, 12, 12, ''BTCUSD''), (3, 13, 13, 13, 13, 13, ''BTCUSD'')],
          resp_count = 4, resp_symbol = Some ''BTCUSD''\<rparr> \<and>
   get_ohlc stable_sort plain_float accept_instant bars_loader (Some ''BTCUSD'')
     (Some ''not-a-date'') None (Some 1000) =
     Inr \<lparr>resp_data = [], resp_count = 0, resp_symbol = Some ''BTCUSD''\<rparr>"
  by (simp add: bars_served)
     (simp add: get_ohlc_def load_ohlc_def load_partitioned_def find_parquet_files_def
      bars_loader_def bars_1108_def bars_1109_def path_str_def date_skipped_def both_and_def)

section \<open>Properties of the producer\<close>

subsection \<open>Connecting to the bus\<close>

lemma emit3:
  "emit (Sleep retry_delay) (emit (LogError e) (emit (Connect a) self)) =
     self\<lparr>events := events self @ [Connect a, LogError e, Sleep 5]\<rparr>"
  by (simp add: emit_def retry_delay_def)

lemma connect_attempts_prefix:
  assumes "\<forall>i. a \<le> i \<and> i < k \<longrightarrow> broker i = Some (err i)" and "k \<le> 9" and "a \<le> k"
  shows "connect_attempts broker [a..<10] self =
     connect_attempts broker [k..<10]
       (self\<lparr>events := events self @ concat (map (failed_attempt err) [a..<k])\<rparr>)"
  using assms
proof (induction "k - a" arbitrary: a self)
  case 0
  then have "a = k" by simp
  then show ?case by simp
next
  case (Suc n)
  then have ak: "a < k" and a9: "a < 9" by simp_all
  have up: "[a..<10] = a # [Suc a..<10]" "[a..<k] = a # [Suc a..<k]"
    using ak a9 by (simp_all add: upt_conv_Cons)
  have ba: "broker a = Some (err a)" using Suc.prems(1) ak by simp
  have "connect_attempts broker [a..<10] self =
      connect_attempts broker [Suc a..<10]
        (self\<lparr>events := events self @ [Connect a, LogError (err a), Sleep 5]\<rparr>)"
    using ba a9 by (simp add: up(1) max_retries_def emit3)
  also have "\<dots> = connect_attempts broker [k..<10]
      ((self\<lparr>events := events self @ [Connect a, LogError (err a), Sleep 5]\<rparr>)
         \<lparr>events := events (self\<lparr>events := events self @ [Connect a, LogError (err a), Sleep 5]\<rparr>) @
            concat (map (failed_attempt err) [Suc a..<k])\<rparr>)"
    using Suc.hyps(2) Suc.prems ak by (intro Suc.hyps(1)) auto
  also have "\<dots> = connect_attempts broker [k..<10]
      (self\<lparr>events := events self @ concat (map (failed_attempt err) [a..<k])\<rparr>)"
    by (simp add: up(2) failed_attempt_def)
  finally show ?case .
qed

text \<open>
  C6: when every attempt fails, \<open>connect_kafka\<close> makes exactly the attempts 0
  to 9, sleeps 5 seconds after each of the first nine and raises the exception of
  the tenth; when attempt \<open>k\<close> is the first to succeed it returns \<open>True\<close> at
  that attempt, after \<open>k\<close> failed attempts and sleeps.
\<close>

theorem bus_connect_bound:
  "((\<forall>i < 10. broker i = Some (err i)) \<longrightarrow>
      connect_kafka broker self =
        (Inl (err 9),
         self\<lparr>events := events self @ concat (map (failed_attempt err) [0..<9]) @
                   [Connect 9, LogError (err 9)]\<rparr>)) \<and>
   (k < 10 \<and> (\<forall>i < k. broker i = Some (err i)) \<and> broker k = None \<longrightarrow>
      connect_kafka broker self =
        (Inr True,
         self\<lparr>connected := True,
              events := events self @ concat (map (failed_attempt err) [0..<k]) @
                   [Connect k, LogInfo]\<rparr>))"
proof (intro conjI impI)
  assume all: "\<forall>i < 10. broker i = Some (err i)"
  then have "connect_attempts broker [0..<10] self =
      connect_attempts broker [9..<10]
        (self\<lparr>events := events self @ concat (map (failed_attempt err) [0..<9])\<rparr>)"
    by (intro connect_attempts_prefix) auto
  moreover have "broker 9 = Some (err 9)" using all by simp
  ultimately show "connect_kafka broker self =
        (Inl (err 9),
         self\<lparr>events := events self @ concat (map (failed_attempt err) [0..<9]) @
                   [Connect 9, LogError (err 9)]\<rparr>)"
    by (simp add: connect_kafka_def max_retries_def emit_def)
next
  assume k: "k < 10 \<and> (\<forall>i < k. broker i = Some (err i)) \<and> broker k = None"
  then have "connect_attempts broker [0..<10] self =
      connect_attempts broker [k..<10]
        (self\<lparr>events := events self @ concat (map (failed_attempt err) [0..<k])\<rparr>)"
    by (intro connect_attempts_prefix) auto
  moreover have "[k..<10] = k # [Suc k..<10]" using k by (simp add: upt_conv_Cons)
  ultimately show "connect_kafka broker self =
        (Inr True,
         self\<lparr>connected := True,
              events := events self @ concat (map (failed_attempt err) [0..<k]) @
                   [Connect k, LogInfo]\<rparr>)"
    using k by (simp add: connect_kafka_def max_retries_def emit_def)
qed


lemma upt_0_9: "[0..<9] = [0, 1, 2, 3, 4, 5, 6, 7, 8]"
  by (simp add: upt_rec)

lemma upt_0_2: "[0..<2] = [0, 1]"
  by (simp add: upt_rec)

theorem bus_connect_bound_witness:
  "connect_kafka (\<lambda>i. Some KafkaError) fresh_producer =
     (Inl KafkaError,
      fresh_producer\<lparr>events :=
        [Connect 0, LogError KafkaError, Sleep 5, Connect 1, LogError KafkaError, Sleep 5,
         Connect 2, LogError KafkaError, Sleep 5, Connect 3, LogError KafkaError, Sleep 5,
         Connect 4, LogError KafkaError, Sleep 5, Connect 5, LogError KafkaError, Sleep 5,
         Connect 6, LogError KafkaError, Sleep 5, Connect 7, LogError KafkaError, Sleep 5,
         Connect 8, LogError KafkaError, Sleep 5, Connect 9, LogError KafkaError]\<rparr>) \<and>
   connect_kafka (\<lambda>i. if i < 2 then Some KafkaError else None) fresh_producer =
     (Inr True,
      fresh_producer\<lparr>connected := True,
        events :=
          [Connect 0, LogError KafkaError, Sleep 5, Connect 1, LogError KafkaError, Sleep 5,
           Connect 2, LogInfo]\<rparr>)"
  using
    bus_connect_bound [where broker = "\<lambda>i. Some KafkaError" and err = "\<lambda>i. KafkaError"
      and k = 0 and self = fresh_producer]
    bus_connect_bound [where broker = "\<lambda>i. if i < 2 then Some KafkaError else None"
      and err = "\<lambda>i. KafkaError" and k = 2 and self = fresh_producer]
  by (simp add: failed_attempt_def upt_0_9 upt_0_2 fresh_producer_def)

subsection \<open>Decoding and publishing\<close>

lemma sends_append: "sends (xs @ ys) = sends xs @ sends ys"
  by (induction xs rule: sends.induct) auto

lemma sends_throttle: "sends (events (throttle self)) = sends (events self)"
  by (simp add: throttle_def emit_def sends_append)

lemma sends_send_to_kafka:
  "sends (events (send_to_kafka self t ack)) = sends (events self) @ [t]"
  by (simp add: send_to_kafka_def emit_def sends_append Let_def)

lemma build_valid:
  assumes "valid_agg_trade to_float (Some (JObject d))"
  shows "build_trade_data to_float d = Inr (normalized to_float (Some (JObject d)))"
  using assms
  by (auto simp: valid_agg_trade_def converts_def build_trade_data_def getitem_def
      normalized_def field_def number_def split: option.splits sum.splits)

lemma build_invalid:
  assumes "\<not> valid_agg_trade to_float (Some (JObject d))"
    and "map_of d ''e'' = Some (JString ''aggTrade'')"
  shows "\<exists>err. build_trade_data to_float d = Inl err"
  using assms
  by (auto simp: valid_agg_trade_def converts_def build_trade_data_def getitem_def
      split: option.splits sum.splits)

lemma sends_on_message:
  "sends (events (on_message to_float self message ack)) =
     sends (events self) @
       (if valid_agg_trade to_float message then [normalized to_float message] else [])"
proof (cases message)
  case None
  then show ?thesis
    by (simp add: on_message_def emit_def sends_append valid_agg_trade_def)
next
  case (Some data)
  show ?thesis
  proof (cases data)
    case (JObject d)
    show ?thesis
    proof (cases "map_of d ''e'' = Some (JString ''aggTrade'')")
      case True
      show ?thesis
      proof (cases "valid_agg_trade to_float (Some (JObject d))")
        case v: True
        then show ?thesis
          using True build_valid [OF v]
          by (simp add: Some JObject on_message_def sends_throttle sends_send_to_kafka)
      next
        case nv: False
        then obtain err where "build_trade_data to_float d = Inl err"
          using build_invalid True by blast
        then show ?thesis
          using True nv
          by (simp add: Some JObject on_message_def emit_def sends_append)
      qed
    next
      case False
      then show ?thesis
        by (auto simp: Some JObject on_message_def valid_agg_trade_def split: option.splits)
    qed
  qed (simp_all add: Some on_message_def emit_def sends_append valid_agg_trade_def)
qed

lemma sends_feed:
  "sends (events (feed to_float self msgs)) =
     sends (events self) @ map (normalized to_float) (filter (valid_agg_trade to_float) (map fst msgs))"
proof (induction msgs arbitrary: self)
  case Nil
  show ?case by simp
next
  case (Cons m msgs)
  obtain message ack where m: "m = (message, ack)" by (cases m)
  show ?case
    by (simp add: m Cons.IH sends_on_message)
qed

text \<open>
  C7: in a feed session of valid aggregate-trade messages with one malformed message
  among them, the publish attempts are exactly the normalized events of the valid
  messages, in order, one for each, and none for the malformed one. \<open>on_message\<close>
  returns a producer state for every message: each exception inside it is caught and
  logged, so none ends the session.
\<close>

theorem decode_isolation:
  assumes "list_all (valid_agg_trade to_float) (map fst before)"
    and "list_all (valid_agg_trade to_float) (map fst after)"
    and "\<not> valid_agg_trade to_float bad"
  shows "sends (events (feed to_float self (before @ (bad, ack) # after))) =
           sends (events self) @ map (normalized to_float) (map fst (before @ after)) \<and>
         length (sends (events (feed to_float self (before @ (bad, ack) # after)))) =
           length (sends (events self)) + (length before + length after)"
proof -
  have "filter (valid_agg_trade to_float) (map fst (before @ (bad, ack) # after)) =
      map fst (before @ after)"
    using assms by (simp add: list_all_iff)
  then show ?thesis by (simp add: sends_feed)
qed


lemma plain_float_scenario:
  "plain_float (JString ''50000.5'') = Inr (100001 / 2)"
  "plain_float (JString ''0.01'') = Inr (1 / 100)"
  by (simp_all add: plain_float_def decimal_def digit_def)

lemma scenario_valid: "valid_agg_trade plain_float (Some scenario_message)"
  by (simp add: valid_agg_trade_def scenario_message_def converts_def plain_float_scenario)

lemma examples_not_valid:
  "\<not> valid_agg_trade to_float None"
  "\<not> valid_agg_trade to_float (Some other_kind_message)"
  "\<not> valid_agg_trade to_float (Some missing_field_message)"
  by (simp_all add: valid_agg_trade_def other_kind_message_def missing_field_message_def
      converts_def)

theorem decode_isolation_witness:
  "length (sends (events (feed plain_float fresh_producer
      [(Some scenario_message, True), (None, True), (Some scenario_message, False)]))) = 2 \<and>
   length (sends (events (feed plain_float fresh_producer
      [(Some scenario_message, True), (Some other_kind_message, True)]))) = 1 \<and>
   length (sends (events (feed plain_float fresh_producer
      [(Some missing_field_message, True), (Some scenario_message, True)]))) = 1"
  using
    decode_isolation [of plain_float "[(Some scenario_message, True)]"
      "[(Some scenario_message, False)]" None fresh_producer True]
    decode_isolation [of plain_float "[(Some scenario_message, True)]" "[]"
      "Some other_kind_message" fresh_producer True]
    decode_isolation [of plain_float "[]" "[(Some scenario_message, True)]"
      "Some missing_field_message" fresh_producer True]
  by (simp add: scenario_valid examples_not_valid fresh_producer_def)

text \<open>
  C8: the trade message of the scenario is decoded to the event with symbol BTCUSDT,
  the price and the quantity that \<open>float\<close> makes of the strings \<open>50000.5\<close>
  and \<open>0.01\<close>, timestamp 1699564800000, buyer-maker flag true and trade id 123,
  and that event is what is handed to the bus.
\<close>

theorem normalize_scenario:
  assumes "to_float (JString ''50000.5'') = Inr price"
    and "to_float (JString ''0.01'') = Inr quantity"
  shows "\<exists>d. scenario_message = JObject d \<and>
           build_trade_data to_float d =
             Inr [(''symbol'', JString ''BTCUSDT''), (''price'', JFloat price),
                  (''quantity'', JFloat quantity), (''timestamp'', JInt 1699564800000),
                  (''is_buyer_maker'', JBool True), (''trade_id'', JInt 123)] \<and>
           sends (events (on_message to_float self (Some scenario_message) ack)) =
             sends (events self) @
               [[(''symbol'', JString ''BTCUSDT''), (''price'', JFloat price),
                 (''quantity'', JFloat quantity), (''timestamp'', JInt 1699564800000),
                 (''is_buyer_maker'', JBool True), (''trade_id'', JInt 123)]]"
  using assms
  by (simp add: scenario_message_def build_trade_data_def getitem_def on_message_def
      sends_throttle sends_send_to_kafka)

theorem normalize_scenario_witness:
  "\<exists>d. scenario_message = JObject d \<and>
     build_trade_data plain_float d =
       Inr [(''symbol'', JString ''BTCUSDT''), (''price'', JFloat (100001 / 2)),
            (''quantity'', JFloat (1 / 100)), (''timestamp'', JInt 1699564800000),
            (''is_buyer_maker'', JBool True), (''trade_id'', JInt 123)] \<and>
     sends (events (on_message plain_float fresh_producer (Some scenario_message) True)) =
       sends (events fresh_producer) @
         [[(''symbol'', JString ''BTCUSDT''), (''price'', JFloat (100001 / 2)),
           (''quantity'', JFloat (1 / 100)), (''timestamp'', JInt 1699564800000),
           (''is_buyer_maker'', JBool True), (''trade_id'', JInt 123)]]"
  by (rule normalize_scenario) (rule plain_float_scenario)+

end
